theory Spec2Isabelle
  imports Main "HOL-Library.Word"
begin

section \<open>JavaScript values used by the chat component\<close>

text \<open>
  A JavaScript string is a sequence of UTF-16 code units. String literals of the source
  that are plain ASCII are written with \<open>ascii\<close>; the two emoji of the source are
  written out as their code units.
\<close>

type_synonym jsstring = "16 word list"

definition ascii :: "string \<Rightarrow> jsstring" where
  "ascii s = map of_char s"

text \<open>
  The values \<^verbatim>\<open>res.json()\<close> can resolve to: what \<^verbatim>\<open>JSON.parse\<close> builds. \<open>JObj\<close> lists the
  own properties of the parsed object (each key once). The numeric payload is never
  inspected by the component.
\<close>

datatype json =
    JNull
  | JBool bool
  | JNum int
  | JStr jsstring
  | JArr "json list"
  | JObj "(jsstring \<times> json) list"

text \<open>A property read can also give \<^verbatim>\<open>undefined\<close>.\<close>

datatype jsvalue = Undefined | Value json

datatype js_error =
    TypeError
  | SyntaxError
  | Error jsstring

text \<open>
  The property read \<^verbatim>\<open>data.reply\<close>: reading a property of \<^verbatim>\<open>null\<close> throws a TypeError;
  an object gives the property's value, or \<^verbatim>\<open>undefined\<close> when it has none of that name;
  booleans, numbers, strings and arrays have no property called \<^verbatim>\<open>reply\<close>.
\<close>

fun get_prop :: "json \<Rightarrow> jsstring \<Rightarrow> js_error + jsvalue" where
  "get_prop JNull k = Inl TypeError"
| "get_prop (JObj kvs) k = (case map_of kvs k of Some v \<Rightarrow> Inr (Value v) | None \<Rightarrow> Inr Undefined)"
| "get_prop v k = Inr Undefined"

text \<open>
  \<^verbatim>\<open>String.prototype.trim\<close> removes the code units of WhiteSpace and LineTerminator
  from both ends.
\<close>

definition isWhiteSpace :: "16 word \<Rightarrow> bool" where
  "isWhiteSpace u \<longleftrightarrow>
     u \<in> set [0x0009, 0x000A, 0x000B, 0x000C, 0x000D, 0x0020, 0x00A0, 0x1680,
              0x2000, 0x2001, 0x2002, 0x2003, 0x2004, 0x2005, 0x2006, 0x2007,
              0x2008, 0x2009, 0x200A, 0x2028, 0x2029, 0x202F, 0x205F, 0x3000, 0xFEFF]"

definition trim :: "jsstring \<Rightarrow> jsstring" where
  "trim s = rev (dropWhile isWhiteSpace (rev (dropWhile isWhiteSpace s)))"

section \<open>The data of Chat.jsx\<close>

text \<open>A message record \<^verbatim>\<open>{ role, text }\<close>; the field \<^verbatim>\<open>text\<close> is written \<open>text'\<close>.\<close>

record message =
  role :: jsstring
  text' :: jsvalue

text \<open>The three \<^verbatim>\<open>useState\<close> cells of the component.\<close>

record chat =
  messages :: "message list"
  input :: jsstring
  loading :: bool

definition API_URL :: jsstring where
  "API_URL = ascii ''http://127.0.0.1:8000/chat''"

text \<open>
  The body of the request is \<^verbatim>\<open>JSON.stringify\<close> of a value; the serialiser is the
  platform's, so the body is kept as the value handed to it.
\<close>

datatype wire_body = JSON_stringify json

text \<open>The second argument of \<^verbatim>\<open>fetch\<close>, with its URL; the field \<^verbatim>\<open>method\<close> is written \<open>method'\<close>.\<close>

record request =
  url :: jsstring
  method' :: jsstring
  headers :: "(jsstring \<times> jsstring) list"
  body :: wire_body

text \<open>
  What the two awaits of \<^verbatim>\<open>sendMessage\<close> can deliver: \<^verbatim>\<open>fetch\<close> rejects, or resolves
  to a response with its \<^verbatim>\<open>ok\<close> flag; \<^verbatim>\<open>res.json()\<close> rejects (the body is not JSON), or
  resolves to the parsed value.
\<close>

datatype json_outcome = JsonRejected js_error | JsonResolved json

record response =
  ok :: bool
  json :: json_outcome

datatype fetch_outcome = FetchRejected js_error | FetchResolved response

text \<open>
  The effects \<^verbatim>\<open>sendMessage\<close> performs, in program order. \<^verbatim>\<open>setMessages\<close> is always
  called with an updater function \<^verbatim>\<open>prev => ...\<close>; React runs the updater itself, when it
  renders, so what the updater's body throws is not thrown at the call of \<^verbatim>\<open>setMessages\<close>.
\<close>

type_synonym updater = "message list \<Rightarrow> js_error + message list"

datatype effect =
    SetMessages updater
  | SetInput jsstring
  | SetLoading bool
  | Fetch request

definition greeting :: message where
  "greeting = \<lparr>role = ascii ''bot'',
     text' = Value (JStr (ascii ''Hello! I'' @ [0x0027] @
                  ascii ''m your Enterprise Data Assistant.How can I help you? '' @
                  [0xD83C, 0xDF2A, 0xFE0F]))\<rparr>"

definition initial :: chat where
  "initial = \<lparr>messages = [greeting], input = [], loading = False\<rparr>"

definition fallback_text :: jsstring where
  "fallback_text = [0x26A0, 0xFE0F] @
     ascii '' **System Error:** Unable to reach the backend. Is the server running?''"

text \<open>The three updater functions handed to \<^verbatim>\<open>setMessages\<close> (lines 25, 41 and 43).\<close>

definition user_updater :: "jsstring \<Rightarrow> updater" where
  "user_updater userText prev = Inr (prev @ [\<lparr>role = ascii ''user'', text' = Value (JStr userText)\<rparr>])"

definition reply_updater :: "json \<Rightarrow> updater" where
  "reply_updater data prev =
     (case get_prop data (ascii ''reply'') of
        Inl e \<Rightarrow> Inl e
      | Inr v \<Rightarrow> Inr (prev @ [\<lparr>role = ascii ''bot'', text' = v\<rparr>]))"

definition fallback_updater :: updater where
  "fallback_updater prev = Inr (prev @ [\<lparr>role = ascii ''bot'', text' = Value (JStr fallback_text)\<rparr>])"

section \<open>sendMessage\<close>

text \<open>
  How far a call of the async function \<^verbatim>\<open>sendMessage\<close> has come: it has returned, it has
  thrown (its promise is rejected), or it is suspended at an \<^verbatim>\<open>await\<close>.
\<close>

datatype progress = Returned | Thrown js_error | Awaiting

text \<open>
  Lines 21 to 34: the guard, the three state setters and the call of \<^verbatim>\<open>fetch\<close>. The
  function reads \<^verbatim>\<open>input\<close> and \<^verbatim>\<open>loading\<close> of the render it was created in. An empty
  string is the only falsy string, so \<^verbatim>\<open>!input.trim()\<close> says that the trimmed input is
  empty.
\<close>

definition sendMessage_begin :: "chat \<Rightarrow> progress \<times> effect list" where
  "sendMessage_begin c =
     (if trim (input c) = [] \<or> loading c then (Returned, [])
      else
        let userText = input c in
        (Awaiting,
         [SetMessages (user_updater userText),
          SetInput [],
          SetLoading True,
          Fetch \<lparr>url = API_URL,
                 method' = ascii ''POST'',
                 headers = [(ascii ''Content-Type'', ascii ''application/json'')],
                 body = JSON_stringify (JObj [(ascii ''message'', JStr userText)])\<rparr>]))"

text \<open>
  Lines 30 to 41, from the point where \<^verbatim>\<open>fetch\<close> settles. No state is written between
  the two awaits, so the results of both are handed over together.
\<close>

definition try_block :: "fetch_outcome \<Rightarrow> progress \<times> effect list" where
  "try_block out =
     (case out of
        FetchRejected e \<Rightarrow> (Thrown e, [])
      | FetchResolved res \<Rightarrow>
          if \<not> ok res then (Thrown (Error (ascii ''Network Error'')), [])
          else (case json res of
                  JsonRejected e \<Rightarrow> (Thrown e, [])
                | JsonResolved data \<Rightarrow> (Returned, [SetMessages (reply_updater data)])))"

definition catch_block :: "js_error \<Rightarrow> progress \<times> effect list" where
  "catch_block e = (Returned, [SetMessages fallback_updater])"

definition finally_block :: "progress \<times> effect list" where
  "finally_block = (Returned, [SetLoading False])"

text \<open>
  \<^verbatim>\<open>try { ... } catch (e) { ... } finally { ... }\<close>: the catch block runs when the try block
  throws, the finally block runs in every case, and what the statement throws is what the
  finally block throws, else what was still being thrown before it.
\<close>

definition sendMessage_resume :: "fetch_outcome \<Rightarrow> progress \<times> effect list" where
  "sendMessage_resume out =
     (let (p1, e1) = try_block out;
          (p2, e2) = (case p1 of Thrown e \<Rightarrow> catch_block e | _ \<Rightarrow> (p1, []));
          (p3, e3) = finally_block
      in ((case p3 of Thrown e \<Rightarrow> p3 | _ \<Rightarrow> p2), e1 @ e2 @ e3))"

section \<open>The component in its environment\<close>

text \<open>
  The state of the mounted component together with the network: the calls of
  \<^verbatim>\<open>sendMessage\<close> that are suspended at an await, and every request issued so far.
\<close>

record world =
  ui :: chat
  inflight :: nat
  requests :: "request list"

definition start :: world where
  "start = \<lparr>ui = initial, inflight = 0, requests = []\<rparr>"

text \<open>
  One effect, applied to the state. React queues the state updates of a handler and
  applies them in order when it next renders; the updaters are applied in the order of
  the calls, so applying each effect in turn gives the same state. React may also try an
  updater at the call of the setter, but it discards an exception raised there and runs
  the updater again when it renders. So an updater that throws does so while React
  renders the component; nothing in the source catches that (there is no error
  boundary), the component is unmounted, and the result is the error.
\<close>

fun perform1 :: "effect \<Rightarrow> world \<Rightarrow> js_error + world" where
  "perform1 (SetMessages f) w =
     (case f (messages (ui w)) of
        Inl e \<Rightarrow> Inl e
      | Inr ms \<Rightarrow> Inr (w\<lparr>ui := (ui w)\<lparr>messages := ms\<rparr>\<rparr>))"
| "perform1 (SetInput v) w = Inr (w\<lparr>ui := (ui w)\<lparr>input := v\<rparr>\<rparr>)"
| "perform1 (SetLoading b) w = Inr (w\<lparr>ui := (ui w)\<lparr>loading := b\<rparr>\<rparr>)"
| "perform1 (Fetch r) w = Inr (w\<lparr>inflight := Suc (inflight w), requests := requests w @ [r]\<rparr>)"

fun perform :: "effect list \<Rightarrow> world \<Rightarrow> js_error + world" where
  "perform [] w = Inr w"
| "perform (e # es) w = (case perform1 e w of Inl x \<Rightarrow> Inl x | Inr w' \<Rightarrow> perform es w')"

text \<open>
  The events of the component: the textarea's \<^verbatim>\<open>onChange\<close>, a click on the send button
  (which is disabled while \<^verbatim>\<open>loading || !input.trim()\<close>), a key pressed in the textarea
  (\<^verbatim>\<open>handleKeyDown\<close>), and the settling of an outstanding request, which resumes the
  suspended call. Each handler runs on the state of the latest render: React renders
  after every one of these events before the next is handled. An event \<open>Settle\<close> with
  no call suspended cannot occur and changes nothing.
\<close>

datatype event =
    Change jsstring
  | Click
  | KeyDown jsstring bool
  | Settle fetch_outcome

definition send_disabled :: "chat \<Rightarrow> bool" where
  "send_disabled c \<longleftrightarrow> loading c \<or> trim (input c) = []"

definition call_sendMessage :: "world \<Rightarrow> js_error + world" where
  "call_sendMessage w = perform (snd (sendMessage_begin (ui w))) w"

definition handleKeyDown :: "jsstring \<Rightarrow> bool \<Rightarrow> world \<Rightarrow> js_error + world" where
  "handleKeyDown key shiftKey w =
     (if key = ascii ''Enter'' \<and> \<not> shiftKey then call_sendMessage w else Inr w)"

fun step :: "event \<Rightarrow> world \<Rightarrow> js_error + world" where
  "step (Change v) w = perform [SetInput v] w"
| "step Click w = (if send_disabled (ui w) then Inr w else call_sendMessage w)"
| "step (KeyDown key shiftKey) w = handleKeyDown key shiftKey w"
| "step (Settle out) w =
     (if inflight w = 0 then Inr w
      else perform (snd (sendMessage_resume out)) (w\<lparr>inflight := inflight w - 1\<rparr>))"

fun run :: "event list \<Rightarrow> world \<Rightarrow> js_error + world" where
  "run [] w = Inr w"
| "run (e # es) w = (case step e w of Inl x \<Rightarrow> Inl x | Inr w' \<Rightarrow> run es w')"

text \<open>
  Observations used to state properties. \<open>appended w r\<close> is the list of records a
  transition from \<open>w\<close> with result \<open>r\<close> has put at the end of the conversation; there is
  none when the component did not survive the transition, or when the old conversation
  is not a prefix of the new one. \<open>loading_writes\<close> lists the values a sequence of effects
  writes to the busy flag, \<open>fetches\<close> the requests it issues.
\<close>

definition appended :: "world \<Rightarrow> js_error + world \<Rightarrow> message list option" where
  "appended w r =
     (case r of
        Inl e \<Rightarrow> None
      | Inr w' \<Rightarrow>
          let old = messages (ui w); new = messages (ui w') in
          if take (length old) new = old then Some (drop (length old) new) else None)"

fun loading_writes :: "effect list \<Rightarrow> bool list" where
  "loading_writes [] = []"
| "loading_writes (SetLoading b # es) = b # loading_writes es"
| "loading_writes (e # es) = loading_writes es"

fun fetches :: "effect list \<Rightarrow> request list" where
  "fetches [] = []"
| "fetches (Fetch r # es) = r # fetches es"
| "fetches (e # es) = fetches es"

text \<open>
  Two invariants of the running component: the busy flag is set exactly when one call is
  suspended, and there is never more than one; every request accounts for two records
  once its call has finished and for one while it is suspended, on top of the greeting.
\<close>

definition busy_inv :: "world \<Rightarrow> bool" where
  "busy_inv w \<longleftrightarrow> (loading (ui w) \<longleftrightarrow> inflight w = 1) \<and> inflight w \<le> 1"


text \<open>
  Three states used in examples: the user has typed "hi" into the fresh component, has
  then clicked the send button, and the request has then failed.
\<close>

definition typed_hi :: world where
  "typed_hi = \<lparr>ui = \<lparr>messages = [greeting], input = ascii ''hi'', loading = False\<rparr>,
               inflight = 0, requests = []\<rparr>"

definition sent_hi :: world where
  "sent_hi =
     \<lparr>ui = \<lparr>messages = [greeting, \<lparr>role = ascii ''user'', text' = Value (JStr (ascii ''hi''))\<rparr>],
            input = [], loading = True\<rparr>,
      inflight = 1,
      requests = [\<lparr>url = API_URL, method' = ascii ''POST'',
                   headers = [(ascii ''Content-Type'', ascii ''application/json'')],
                   body = JSON_stringify (JObj [(ascii ''message'', JStr (ascii ''hi''))])\<rparr>]\<rparr>"


section \<open>Basic facts\<close>

lemma dropWhile_all: "(\<forall>x\<in>set s. P x) \<Longrightarrow> dropWhile P s = []"
  by (induction s) auto

lemma dropWhile_Nil_all: "dropWhile P s = [] \<Longrightarrow> (\<forall>x\<in>set s. P x)"
  by (induction s) (auto split: if_splits)

lemma trim_empty_iff: "trim s = [] \<longleftrightarrow> (\<forall>u\<in>set s. isWhiteSpace u)"
proof
  assume "trim s = []"
  then have d: "dropWhile isWhiteSpace (rev (dropWhile isWhiteSpace s)) = []"
    by (simp add: trim_def)
  show "\<forall>u\<in>set s. isWhiteSpace u"
  proof (cases "dropWhile isWhiteSpace s")
    case Nil
    then show ?thesis by (rule dropWhile_Nil_all)
  next
    case (Cons x xs)
    then have "\<not> isWhiteSpace x"
      by (metis hd_dropWhile list.sel(1) list.distinct(1))
    moreover from dropWhile_Nil_all [OF d] Cons have "isWhiteSpace x"
      by simp
    ultimately show ?thesis by simp
  qed
next
  assume "\<forall>u\<in>set s. isWhiteSpace u"
  then have "dropWhile isWhiteSpace s = []"
    by (rule dropWhile_all)
  then show "trim s = []" by (auto simp: trim_def dest: set_dropWhileD)
qed

lemma appended_append:
  "messages (ui w') = messages (ui w) @ xs \<Longrightarrow> appended w (Inr w') = Some xs"
  by (simp add: appended_def)

subsection \<open>The two halves of sendMessage\<close>

lemma begin_refuse:
  "loading c \<or> trim (input c) = [] \<Longrightarrow> sendMessage_begin c = (Returned, [])"
  by (auto simp: sendMessage_begin_def)

lemma begin_pass:
  "\<not> loading c \<Longrightarrow> trim (input c) \<noteq> [] \<Longrightarrow>
   sendMessage_begin c =
     (Awaiting,
      [SetMessages (user_updater (input c)), SetInput [], SetLoading True,
       Fetch \<lparr>url = API_URL, method' = ascii ''POST'',
              headers = [(ascii ''Content-Type'', ascii ''application/json'')],
              body = JSON_stringify (JObj [(ascii ''message'', JStr (input c))])\<rparr>])"
  by (simp add: sendMessage_begin_def Let_def)

lemma try_block_cases:
  "try_block (FetchRejected e) = (Thrown e, [])"
  "\<not> ok res \<Longrightarrow> try_block (FetchResolved res) = (Thrown (Error (ascii ''Network Error'')), [])"
  "ok res \<Longrightarrow> json res = JsonRejected e \<Longrightarrow> try_block (FetchResolved res) = (Thrown e, [])"
  "ok res \<Longrightarrow> json res = JsonResolved data \<Longrightarrow>
     try_block (FetchResolved res) = (Returned, [SetMessages (reply_updater data)])"
  by (simp_all add: try_block_def)

lemma resume_thrown:
  "fst (try_block out) = Thrown e \<Longrightarrow>
   sendMessage_resume out = (Returned, [SetMessages fallback_updater, SetLoading False])"
  by (auto simp: sendMessage_resume_def try_block_def catch_block_def finally_block_def
      split: fetch_outcome.splits json_outcome.splits if_splits)

lemma resume_parsed:
  "ok res \<Longrightarrow> json res = JsonResolved data \<Longrightarrow>
   sendMessage_resume (FetchResolved res) =
     (Returned, [SetMessages (reply_updater data), SetLoading False])"
  by (simp add: sendMessage_resume_def try_block_def finally_block_def)

subsection \<open>Their effect on the component\<close>

lemma call_refuse:
  "loading (ui w) \<or> trim (input (ui w)) = [] \<Longrightarrow> call_sendMessage w = Inr w"
  by (simp add: call_sendMessage_def begin_refuse)

lemma call_pass:
  "\<not> loading (ui w) \<Longrightarrow> trim (input (ui w)) \<noteq> [] \<Longrightarrow>
   call_sendMessage w =
     Inr (w\<lparr>ui := (ui w)\<lparr>messages := messages (ui w) @
                  [\<lparr>role = ascii ''user'', text' = Value (JStr (input (ui w)))\<rparr>],
                input := [], loading := True\<rparr>,
            inflight := Suc (inflight w),
            requests := requests w @
              [\<lparr>url = API_URL, method' = ascii ''POST'',
                headers = [(ascii ''Content-Type'', ascii ''application/json'')],
                body = JSON_stringify (JObj [(ascii ''message'', JStr (input (ui w)))])\<rparr>]\<rparr>)"
  by (simp add: call_sendMessage_def begin_pass user_updater_def)

lemma settle_thrown:
  "0 < inflight w \<Longrightarrow> fst (try_block out) = Thrown e \<Longrightarrow>
   step (Settle out) w =
     Inr (w\<lparr>ui := (ui w)\<lparr>messages := messages (ui w) @
                  [\<lparr>role = ascii ''bot'', text' = Value (JStr fallback_text)\<rparr>],
                loading := False\<rparr>,
            inflight := inflight w - 1\<rparr>)"
  by (simp add: resume_thrown fallback_updater_def)

lemma settle_parsed:
  "0 < inflight w \<Longrightarrow> ok res \<Longrightarrow> json res = JsonResolved data \<Longrightarrow>
   step (Settle (FetchResolved res)) w =
     (case get_prop data (ascii ''reply'') of
        Inl e \<Rightarrow> Inl e
      | Inr v \<Rightarrow>
          Inr (w\<lparr>ui := (ui w)\<lparr>messages := messages (ui w) @ [\<lparr>role = ascii ''bot'', text' = v\<rparr>],
                     loading := False\<rparr>,
                 inflight := inflight w - 1\<rparr>))"
  by (simp add: resume_parsed reply_updater_def split: sum.splits)

lemma try_block_total:
  "(\<exists>e. fst (try_block out) = Thrown e) \<or>
   (\<exists>res data. out = FetchResolved res \<and> ok res \<and> json res = JsonResolved data)"
proof (cases out)
  case (FetchRejected e)
  then show ?thesis by (simp add: try_block_cases)
next
  case (FetchResolved res)
  show ?thesis
  proof (cases "ok res")
    case False
    with FetchResolved show ?thesis by (simp add: try_block_cases)
  next
    case True
    with FetchResolved show ?thesis
      by (cases "json res") (simp_all add: try_block_cases)
  qed
qed

subsection \<open>The shape of every transition\<close>

lemma sent_shape:
  assumes "\<not> loading (ui w)" "trim (input (ui w)) \<noteq> []" "call_sendMessage w = Inr w'"
  shows "\<exists>m r. role m = ascii ''user'' \<and>
           w' = w\<lparr>ui := (ui w)\<lparr>messages := messages (ui w) @ [m], input := [], loading := True\<rparr>,
                  inflight := Suc (inflight w), requests := requests w @ [r]\<rparr>"
proof -
  let ?m = "\<lparr>role = ascii ''user'', text' = Value (JStr (input (ui w)))\<rparr>"
  let ?r = "\<lparr>url = API_URL, method' = ascii ''POST'',
             headers = [(ascii ''Content-Type'', ascii ''application/json'')],
             body = JSON_stringify (JObj [(ascii ''message'', JStr (input (ui w)))])\<rparr>"
  from call_pass [OF assms(1,2)] assms(3)
  have "role ?m = ascii ''user'' \<and>
        w' = w\<lparr>ui := (ui w)\<lparr>messages := messages (ui w) @ [?m], input := [], loading := True\<rparr>,
               inflight := Suc (inflight w), requests := requests w @ [?r]\<rparr>"
    by simp
  then show ?thesis by blast
qed

lemma step_cases:
  assumes "step e w = Inr w'"
  shows "w' = w
       \<or> (\<exists>v. w' = w\<lparr>ui := (ui w)\<lparr>input := v\<rparr>\<rparr>)
       \<or> (\<not> loading (ui w) \<and>
          (\<exists>m r. role m = ascii ''user'' \<and>
             w' = w\<lparr>ui := (ui w)\<lparr>messages := messages (ui w) @ [m], input := [], loading := True\<rparr>,
                    inflight := Suc (inflight w), requests := requests w @ [r]\<rparr>))
       \<or> (0 < inflight w \<and>
          (\<exists>m. role m = ascii ''bot'' \<and>
             w' = w\<lparr>ui := (ui w)\<lparr>messages := messages (ui w) @ [m], loading := False\<rparr>,
                    inflight := inflight w - 1\<rparr>))"
proof (cases e)
  case (Change v)
  with assms show ?thesis by auto
next
  case Click
  show ?thesis
  proof (cases "send_disabled (ui w)")
    case True
    with assms Click show ?thesis by simp
  next
    case False
    then have g: "\<not> loading (ui w)" "trim (input (ui w)) \<noteq> []"
      by (simp_all add: send_disabled_def)
    from assms Click False have "call_sendMessage w = Inr w'" by simp
    with sent_shape [OF g] g(1) show ?thesis by blast
  qed
next
  case (KeyDown key shiftKey)
  show ?thesis
  proof (cases "key = ascii ''Enter'' \<and> \<not> shiftKey")
    case False
    with assms KeyDown show ?thesis by (auto simp: handleKeyDown_def)
  next
    case True
    with assms KeyDown have c: "call_sendMessage w = Inr w'"
      by (simp add: handleKeyDown_def)
    show ?thesis
    proof (cases "loading (ui w) \<or> trim (input (ui w)) = []")
      case True
      from call_refuse [OF True] c show ?thesis by simp
    next
      case False
      then have g: "\<not> loading (ui w)" "trim (input (ui w)) \<noteq> []" by simp_all
      from sent_shape [OF g c] g(1) show ?thesis by blast
    qed
  qed
next
  case (Settle out)
  show ?thesis
  proof (cases "inflight w = 0")
    case True
    with assms Settle show ?thesis by simp
  next
    case False
    then have pos: "0 < inflight w" by simp
    show ?thesis
    proof (cases "\<exists>res data. out = FetchResolved res \<and> ok res \<and> json res = JsonResolved data")
      case True
      then obtain res data where o: "out = FetchResolved res" "ok res" "json res = JsonResolved data"
        by blast
      from settle_parsed [OF pos o(2) o(3)] assms Settle o(1)
      obtain v where "w' = w\<lparr>ui := (ui w)\<lparr>messages := messages (ui w) @
          [\<lparr>role = ascii ''bot'', text' = v\<rparr>], loading := False\<rparr>, inflight := inflight w - 1\<rparr>"
        by (auto split: sum.splits)
      then have "\<exists>m. role m = ascii ''bot'' \<and>
          w' = w\<lparr>ui := (ui w)\<lparr>messages := messages (ui w) @ [m], loading := False\<rparr>,
                 inflight := inflight w - 1\<rparr>"
        by (intro exI [of _ "\<lparr>role = ascii ''bot'', text' = v\<rparr>"]) simp
      with pos show ?thesis by blast
    next
      case False
      with try_block_total [of out] obtain e where "fst (try_block out) = Thrown e"
        by blast
      from settle_thrown [OF pos this] assms Settle
      have "w' = w\<lparr>ui := (ui w)\<lparr>messages := messages (ui w) @
          [\<lparr>role = ascii ''bot'', text' = Value (JStr fallback_text)\<rparr>], loading := False\<rparr>,
          inflight := inflight w - 1\<rparr>"
        by simp
      then have "\<exists>m. role m = ascii ''bot'' \<and>
          w' = w\<lparr>ui := (ui w)\<lparr>messages := messages (ui w) @ [m], loading := False\<rparr>,
                 inflight := inflight w - 1\<rparr>"
        by (intro exI [of _ "\<lparr>role = ascii ''bot'', text' = Value (JStr fallback_text)\<rparr>"]) simp
      with pos show ?thesis by blast
    qed
  qed
qed

lemma run_induct:
  assumes "P w" and "\<And>e v v'. P v \<Longrightarrow> step e v = Inr v' \<Longrightarrow> P v'" and "run evs w = Inr w'"
  shows "P w'"
  using assms(1,3)
proof (induction evs arbitrary: w)
  case Nil
  then show ?case by simp
next
  case (Cons e evs)
  then show ?case by (auto split: sum.splits intro: assms(2))
qed

subsection \<open>Further facts about single transitions\<close>

lemma trim_hi: "trim (ascii ''hi'') \<noteq> []"
  by (simp add: trim_def ascii_def isWhiteSpace_def)

lemma settle_requests:
  assumes "step (Settle out) w = Inr w'"
  shows "requests w' = requests w"
proof (cases "inflight w = 0")
  case True
  with assms show ?thesis by simp
next
  case False
  then have pos: "0 < inflight w" by simp
  from try_block_total [of out] show ?thesis
  proof (elim disjE exE conjE)
    fix e assume "fst (try_block out) = Thrown e"
    from settle_thrown [OF pos this] assms show ?thesis by auto
  next
    fix res data assume "out = FetchResolved res" "ok res" "json res = JsonResolved data"
    with settle_parsed [OF pos, of res data] assms show ?thesis
      by (auto split: sum.splits)
  qed
qed

lemma get_prop_absent:
  assumes "data \<noteq> JNull" "\<forall>kvs. data = JObj kvs \<longrightarrow> map_of kvs k = None"
  shows "get_prop data k = Inr Undefined"
  using assms by (cases data) simp_all

lemma resume_loading_writes: "loading_writes (snd (sendMessage_resume out)) = [False]"
  using try_block_total [of out]
  by (auto simp: resume_thrown resume_parsed)

lemma resume_fetches: "fetches (snd (sendMessage_resume out)) = []"
  using try_block_total [of out]
  by (auto simp: resume_thrown resume_parsed)

text \<open>
  No call of sendMessage throws, and each failure the try block can see is answered by
  the fallback record and the reset of the busy flag.
\<close>

lemma sendMessage_returns:
  "fst (sendMessage_begin c) \<noteq> Thrown e \<and> fst (sendMessage_resume out) = Returned"
proof
  show "fst (sendMessage_begin c) \<noteq> Thrown e"
    by (simp add: sendMessage_begin_def Let_def)
  show "fst (sendMessage_resume out) = Returned"
    using try_block_total [of out] by (auto simp: resume_thrown resume_parsed)
qed

lemma failure_converted:
  assumes "out = FetchRejected e \<or>
           (out = FetchResolved res \<and> (\<not> ok res \<or> json res = JsonRejected e))"
  shows "sendMessage_resume out = (Returned, [SetMessages fallback_updater, SetLoading False])"
proof -
  from assms obtain x where "fst (try_block out) = Thrown x"
    by (cases "ok res") (auto simp: try_block_cases)
  then show ?thesis by (rule resume_thrown)
qed

lemma get_prop_defined: "data \<noteq> JNull \<Longrightarrow> \<exists>v. get_prop data k = Inr v"
  by (cases data) (simp_all split: option.splits)

text \<open>
  A send that passes the guard appends the user record at once and one bot record when
  the request settles, for every outcome but one: a success response whose body is the
  JSON value \<^verbatim>\<open>null\<close>.
\<close>

lemma send_then_settle:
  assumes "\<not> loading (ui w)" and "trim (input (ui w)) \<noteq> []"
    and "\<not> (\<exists>res. out = FetchResolved res \<and> ok res \<and> json res = JsonResolved JNull)"
  shows "\<exists>w1 m. call_sendMessage w = Inr w1 \<and>
           appended w (Inr w1) = Some [\<lparr>role = ascii ''user'', text' = Value (JStr (input (ui w)))\<rparr>] \<and>
           role m = ascii ''bot'' \<and> appended w1 (step (Settle out) w1) = Some [m]"
proof -
  let ?u = "\<lparr>role = ascii ''user'', text' = Value (JStr (input (ui w)))\<rparr>"
  obtain w1 where w1: "call_sendMessage w = Inr w1" "messages (ui w1) = messages (ui w) @ [?u]"
    "0 < inflight w1"
    using call_pass [OF assms(1,2)] by simp
  have a: "appended w (Inr w1) = Some [?u]"
    using w1(2) by (rule appended_append)
  have "\<exists>m. role m = ascii ''bot'' \<and> appended w1 (step (Settle out) w1) = Some [m]"
    using try_block_total [of out]
  proof (elim disjE exE conjE)
    fix e assume "fst (try_block out) = Thrown e"
    from settle_thrown [OF w1(3) this]
    have "appended w1 (step (Settle out) w1) =
        Some [\<lparr>role = ascii ''bot'', text' = Value (JStr fallback_text)\<rparr>]"
      by (simp add: appended_append)
    then show ?thesis by simp
  next
    fix res data assume o: "out = FetchResolved res" "ok res" "json res = JsonResolved data"
    with assms(3) have "data \<noteq> JNull" by auto
    then obtain v where "get_prop data (ascii ''reply'') = Inr v"
      using get_prop_defined by blast
    with settle_parsed [OF w1(3) o(2,3)] o(1)
    have "appended w1 (step (Settle out) w1) = Some [\<lparr>role = ascii ''bot'', text' = v\<rparr>]"
      by (simp add: appended_append)
    then show ?thesis by simp
  qed
  with w1(1) a show ?thesis by blast
qed

subsection \<open>The example states\<close>

lemma typed_hi_guard: "\<not> loading (ui typed_hi)" "trim (input (ui typed_hi)) \<noteq> []"
  by (simp_all add: typed_hi_def trim_hi)

lemma run_typed: "run [Change (ascii ''hi'')] start = Inr typed_hi"
  by (simp add: start_def initial_def typed_hi_def)

lemma call_typed: "call_sendMessage typed_hi = Inr sent_hi"
  using call_pass [OF typed_hi_guard] by (simp add: typed_hi_def sent_hi_def)

lemma click_typed: "step Click typed_hi = Inr sent_hi"
  using typed_hi_guard by (simp add: send_disabled_def call_typed)

lemma run_hi: "run [Change (ascii ''hi''), Click] start = Inr sent_hi"
  using run_typed click_typed by (simp split: sum.splits)

lemma sent_hi_inflight: "0 < inflight sent_hi"
  by (simp add: sent_hi_def)



lemma settle_sent_null:
  "step (Settle (FetchResolved \<lparr>ok = True, json = JsonResolved JNull\<rparr>)) sent_hi = Inl TypeError"
  using settle_parsed [OF sent_hi_inflight, of "\<lparr>ok = True, json = JsonResolved JNull\<rparr>" JNull]
  by simp

lemma answer_not_reply: "ascii ''answer'' \<noteq> ascii ''reply''"
  by (simp add: ascii_def)

subsection \<open>Invariants of every run\<close>

lemma busy_inv_step:
  assumes "busy_inv w" and "step e w = Inr w'"
  shows "busy_inv w'"
  using step_cases [OF assms(2)] assms(1)
  by (elim disjE exE conjE) (auto simp: busy_inv_def)

lemma busy_inv_run:
  assumes "run evs start = Inr w"
  shows "busy_inv w"
proof (rule run_induct [OF _ _ assms])
  show "busy_inv start" by (simp add: busy_inv_def start_def initial_def)
  show "\<And>e v v'. busy_inv v \<Longrightarrow> step e v = Inr v' \<Longrightarrow> busy_inv v'"
    by (rule busy_inv_step)
qed



lemma append_only_run:
  assumes "run evs w = Inr w'"
  shows "\<exists>xs. messages (ui w') = messages (ui w) @ xs \<and>
              (\<forall>m\<in>set xs. role m = ascii ''user'' \<or> role m = ascii ''bot'')"
  using assms
proof (induction evs arbitrary: w)
  case Nil
  then show ?case by simp
next
  case (Cons e evs)
  then obtain v where v: "step e w = Inr v" "run evs v = Inr w'"
    by (auto split: sum.splits)
  from Cons.IH [OF v(2)] obtain ys where
    ys: "messages (ui w') = messages (ui v) @ ys" "\<forall>m\<in>set ys. role m = ascii ''user'' \<or> role m = ascii ''bot''"
    by blast
  from step_cases [OF v(1)] obtain xs where
    xs: "messages (ui v) = messages (ui w) @ xs" "\<forall>m\<in>set xs. role m = ascii ''user'' \<or> role m = ascii ''bot''"
  proof (elim disjE exE conjE)
    assume "v = w"
    then have "messages (ui v) = messages (ui w) @ []" by simp
    then show ?thesis using that [of "[]"] by simp
  next
    fix x assume "v = w\<lparr>ui := (ui w)\<lparr>input := x\<rparr>\<rparr>"
    then have "messages (ui v) = messages (ui w) @ []" by simp
    then show ?thesis using that [of "[]"] by simp
  next
    fix m r assume "role m = ascii ''user''"
      "v = w\<lparr>ui := (ui w)\<lparr>messages := messages (ui w) @ [m], input := [], loading := True\<rparr>,
             inflight := Suc (inflight w), requests := requests w @ [r]\<rparr>"
    then show ?thesis using that [of "[m]"] by simp
  next
    fix m assume "role m = ascii ''bot''"
      "v = w\<lparr>ui := (ui w)\<lparr>messages := messages (ui w) @ [m], loading := False\<rparr>,
             inflight := inflight w - 1\<rparr>"
    then show ?thesis using that [of "[m]"] by simp
  qed
  from xs ys have "messages (ui w') = messages (ui w) @ (xs @ ys) \<and>
        (\<forall>m\<in>set (xs @ ys). role m = ascii ''user'' \<or> role m = ascii ''bot'')"
    by auto
  then show ?case by blast
qed

section \<open>Properties of the send pipeline\<close>

subsection \<open>The fallback text\<close>

text \<open>
  C1, as the specification states it: a failed send appends a bot record whose text is
  exactly "System Error: Unable to reach the backend. Is the server running?". On the
  code this fails: after typing "hi", sending, and a network exception, the conversation
  has gained the user record and a bot record whose text is the string of line 45, which
  starts with the warning sign (U+26A0 U+FE0F) and carries Markdown bold markers, so it is
  not the string of the specification.
\<close>

theorem fallback_text_counterexample:
  "appended start (run [Change (ascii ''hi''), Click, Settle (FetchRejected TypeError)] start) =
     Some [\<lparr>role = ascii ''user'', text' = Value (JStr (ascii ''hi''))\<rparr>,
           \<lparr>role = ascii ''bot'', text' = Value (JStr fallback_text)\<rparr>] \<and>
   fallback_text \<noteq> ascii ''System Error: Unable to reach the backend. Is the server running?''"
proof -
  have "fallback_text \<noteq> ascii ''System Error: Unable to reach the backend. Is the server running?''"
    by (simp add: fallback_text_def ascii_def)
  moreover have "appended start (run [Change (ascii ''hi''), Click, Settle (FetchRejected TypeError)] start) =
     Some [\<lparr>role = ascii ''user'', text' = Value (JStr (ascii ''hi''))\<rparr>,
           \<lparr>role = ascii ''bot'', text' = Value (JStr fallback_text)\<rparr>]"
    by (simp add: start_def initial_def send_disabled_def trim_hi call_pass appended_def
        resume_thrown try_block_cases fallback_updater_def)
  ultimately show ?thesis by simp
qed

text \<open>
  C1, amended: whenever a request is outstanding and it fails, by a network exception
  thrown by fetch or by a response whose status is not a success, exactly one record is
  appended: a bot record whose text is the warning sign U+26A0 U+FE0F followed by
  " **System Error:** Unable to reach the backend. Is the server running?".
\<close>

theorem failed_send_appends_fallback:
  assumes "0 < inflight w"
    and "out = FetchRejected e \<or> (out = FetchResolved res \<and> \<not> ok res)"
  shows "appended w (step (Settle out) w) =
     Some [\<lparr>role = ascii ''bot'',
            text' = Value (JStr ([0x26A0, 0xFE0F] @
              ascii '' **System Error:** Unable to reach the backend. Is the server running?''))\<rparr>]"
proof -
  from assms(2) obtain x where "fst (try_block out) = Thrown x"
    by (auto simp: try_block_cases)
  from settle_thrown [OF assms(1) this] show ?thesis
    by (simp add: appended_append fallback_text_def)
qed

theorem failed_send_appends_fallback_witness:
  "appended \<lparr>ui = \<lparr>messages = [greeting], input = [], loading = True\<rparr>, inflight = 1, requests = []\<rparr>
     (step (Settle (FetchResolved \<lparr>ok = False, json = JsonResolved (JObj [(ascii ''reply'', JStr (ascii ''x''))])\<rparr>))
        \<lparr>ui = \<lparr>messages = [greeting], input = [], loading = True\<rparr>, inflight = 1, requests = []\<rparr>) =
     Some [\<lparr>role = ascii ''bot'',
            text' = Value (JStr ([0x26A0, 0xFE0F] @
              ascii '' **System Error:** Unable to reach the backend. Is the server running?''))\<rparr>]"
  using failed_send_appends_fallback
    [of "\<lparr>ui = \<lparr>messages = [greeting], input = [], loading = True\<rparr>, inflight = 1, requests = []\<rparr>"
        "FetchResolved \<lparr>ok = False, json = JsonResolved (JObj [(ascii ''reply'', JStr (ascii ''x''))])\<rparr>"
        TypeError "\<lparr>ok = False, json = JsonResolved (JObj [(ascii ''reply'', JStr (ascii ''x''))])\<rparr>"]
  by simp

subsection \<open>Two records for each send\<close>

text \<open>
  C2: every send that passes the guard appends one user record at once and one bot
  record when the request resolves, in success or in failure. The code does not do this
  when a success response carries the JSON body \<^verbatim>\<open>null\<close>: the user record "hi" is
  appended, but the updater of line 41 reads \<^verbatim>\<open>data.reply\<close> of \<^verbatim>\<open>null\<close> when React runs
  it, outside the try block, so no bot record is ever appended and the component ends in
  an uncaught TypeError. (For every other outcome the two records are appended, see
  \<open>send_then_settle\<close>.)
\<close>

theorem null_body_crashes:
  "appended start (run [Change (ascii ''hi''), Click] start) =
     Some [\<lparr>role = ascii ''user'', text' = Value (JStr (ascii ''hi''))\<rparr>] \<and>
   run [Change (ascii ''hi''), Click, Settle (FetchResolved \<lparr>ok = True, json = JsonResolved JNull\<rparr>)] start
     = Inl TypeError"
  by (simp add: start_def initial_def send_disabled_def trim_hi call_pass appended_def resume_parsed reply_updater_def)

subsection \<open>No-op when the guard refuses\<close>

text \<open>
  C3: a call of sendMessage made while the busy flag is set, or with an input that is
  empty or consists of white space only, performs no effect at all: the whole state
  (conversation, input, busy flag) is unchanged and no request is issued. This holds for
  the function itself and for both ways of calling it, the button and the Enter key.
\<close>

theorem no_op_when_refused:
  assumes "loading (ui w) \<or> (\<forall>u\<in>set (input (ui w)). isWhiteSpace u)"
  shows "sendMessage_begin (ui w) = (Returned, []) \<and> call_sendMessage w = Inr w \<and>
         step Click w = Inr w \<and> step (KeyDown (ascii ''Enter'') False) w = Inr w"
  using assms
  by (auto simp: begin_refuse call_refuse trim_empty_iff handleKeyDown_def send_disabled_def)

theorem no_op_when_refused_witness:
  "sendMessage_begin \<lparr>messages = [greeting], input = ascii ''  '', loading = False\<rparr> = (Returned, []) \<and>
   call_sendMessage \<lparr>ui = \<lparr>messages = [greeting], input = ascii ''hi'', loading = True\<rparr>,
                      inflight = 1, requests = []\<rparr>
     = Inr \<lparr>ui = \<lparr>messages = [greeting], input = ascii ''hi'', loading = True\<rparr>,
            inflight = 1, requests = []\<rparr>"
  using no_op_when_refused [of "\<lparr>ui = \<lparr>messages = [greeting], input = ascii ''  '', loading = False\<rparr>, inflight = 0, requests = []\<rparr>"]
    no_op_when_refused [of "\<lparr>ui = \<lparr>messages = [greeting], input = ascii ''hi'', loading = True\<rparr>, inflight = 1, requests = []\<rparr>"]
  by (simp add: ascii_def isWhiteSpace_def)

subsection \<open>The reply is shown as received\<close>

text \<open>
  C4: whenever a request is outstanding and it resolves to a success response whose
  parsed body is an object with a property \<^verbatim>\<open>reply\<close> of value X, exactly one record is
  appended, a bot record whose text is X itself.
\<close>

theorem reply_round_trip:
  assumes "0 < inflight w" and "ok res" and "json res = JsonResolved (JObj kvs)"
    and "map_of kvs (ascii ''reply'') = Some X"
  shows "appended w (step (Settle (FetchResolved res)) w) =
           Some [\<lparr>role = ascii ''bot'', text' = Value X\<rparr>]"
  using settle_parsed [OF assms(1,2,3)] assms(4) by (simp add: appended_append)

theorem reply_round_trip_witness:
  "appended \<lparr>ui = \<lparr>messages = [greeting], input = [], loading = True\<rparr>, inflight = 1, requests = []\<rparr>
     (step (Settle (FetchResolved \<lparr>ok = True, json = JsonResolved (JObj [(ascii ''reply'', JStr (ascii ''X''))])\<rparr>))
        \<lparr>ui = \<lparr>messages = [greeting], input = [], loading = True\<rparr>, inflight = 1, requests = []\<rparr>) =
     Some [\<lparr>role = ascii ''bot'', text' = Value (JStr (ascii ''X''))\<rparr>]"
  using reply_round_trip
    [of "\<lparr>ui = \<lparr>messages = [greeting], input = [], loading = True\<rparr>, inflight = 1, requests = []\<rparr>"
        "\<lparr>ok = True, json = JsonResolved (JObj [(ascii ''reply'', JStr (ascii ''X''))])\<rparr>"
        "[(ascii ''reply'', JStr (ascii ''X''))]" "JStr (ascii ''X'')"]
  by simp

subsection \<open>The busy flag\<close>

text \<open>
  C5: in every state the component reaches from its start, the busy flag is set exactly
  when one call of sendMessage is suspended on its request, and never more than one call
  is. A call that passes the guard sets the flag before it issues the request, and the
  resumed call writes the flag exactly once, to false, whatever the outcome.
\<close>

theorem busy_flag_tracks_request:
  "(run evs start = Inr w \<longrightarrow> (loading (ui w) \<longleftrightarrow> inflight w = 1) \<and> inflight w \<le> 1) \<and>
   (\<not> loading c \<and> trim (input c) \<noteq> [] \<longrightarrow>
      (\<exists>u r. snd (sendMessage_begin c) = [SetMessages u, SetInput [], SetLoading True, Fetch r])) \<and>
   loading_writes (snd (sendMessage_resume out)) = [False]"
proof (intro conjI impI)
  assume "run evs start = Inr w"
  from busy_inv_run [OF this] show "loading (ui w) \<longleftrightarrow> inflight w = 1" and "inflight w \<le> 1"
    by (simp_all add: busy_inv_def)
next
  assume "\<not> loading c \<and> trim (input c) \<noteq> []"
  then show "\<exists>u r. snd (sendMessage_begin c) = [SetMessages u, SetInput [], SetLoading True, Fetch r]"
    by (simp add: begin_pass)
next
  show "loading_writes (snd (sendMessage_resume out)) = [False]"
    by (rule resume_loading_writes)
qed

theorem busy_flag_tracks_request_witness:
  "run [Change (ascii ''hi''), Click] start = Inr sent_hi \<and>
   loading (ui sent_hi) \<and> inflight sent_hi = 1 \<and>
   (\<exists>u r. snd (sendMessage_begin (ui typed_hi)) = [SetMessages u, SetInput [], SetLoading True, Fetch r]) \<and>
   loading_writes (snd (sendMessage_resume (FetchRejected TypeError))) = [False]"
  using busy_flag_tracks_request [of "[Change (ascii ''hi''), Click]" sent_hi "ui typed_hi" "FetchRejected TypeError"]
    run_hi typed_hi_guard
  by (simp add: sent_hi_def)

subsection \<open>The conversation only grows\<close>

text \<open>
  C6: every transition of the component leaves the conversation as it is or puts one
  record at its end, and that record has the role "user" or "bot"; no record is removed,
  changed or moved. (\<open>append_only_run\<close> extends this to every sequence of events.)
\<close>

theorem conversation_append_only:
  assumes "step e w = Inr w'"
  shows "messages (ui w') = messages (ui w) \<or>
      (\<exists>m. messages (ui w') = messages (ui w) @ [m] \<and>
           (role m = ascii ''user'' \<or> role m = ascii ''bot''))"
  using step_cases [OF assms] by (elim disjE exE conjE) auto

theorem conversation_append_only_witness:
  "step Click typed_hi = Inr sent_hi \<and>
   (messages (ui sent_hi) = messages (ui typed_hi) \<or>
      (\<exists>m. messages (ui sent_hi) = messages (ui typed_hi) @ [m] \<and>
           (role m = ascii ''user'' \<or> role m = ascii ''bot'')))"
  using conversation_append_only [OF click_typed] click_typed by simp

subsection \<open>The request\<close>

text \<open>
  C7: a call of sendMessage that passes the guard issues exactly one request: a POST to
  \<^verbatim>\<open>http://127.0.0.1:8000/chat\<close> with a JSON content type, whose body is the
  serialisation of the object with the one property \<^verbatim>\<open>message\<close>, the user's input. The
  resumed call issues no further request.
\<close>

theorem one_post_per_send:
  assumes "\<not> loading (ui w)" and "trim (input (ui w)) \<noteq> []"
  shows "fetches (snd (sendMessage_begin (ui w))) =
           [\<lparr>url = ascii ''http://127.0.0.1:8000/chat'', method' = ascii ''POST'',
             headers = [(ascii ''Content-Type'', ascii ''application/json'')],
             body = JSON_stringify (JObj [(ascii ''message'', JStr (input (ui w)))])\<rparr>] \<and>
         fetches (snd (sendMessage_resume out)) = [] \<and>
         (\<exists>w'. call_sendMessage w = Inr w' \<and>
            requests w' = requests w @
             [\<lparr>url = ascii ''http://127.0.0.1:8000/chat'', method' = ascii ''POST'',
               headers = [(ascii ''Content-Type'', ascii ''application/json'')],
               body = JSON_stringify (JObj [(ascii ''message'', JStr (input (ui w)))])\<rparr>])"
  using call_pass [OF assms] begin_pass [OF assms]
  by (simp add: API_URL_def resume_fetches)

theorem one_post_per_send_witness:
  "\<not> loading (ui typed_hi) \<and> trim (input (ui typed_hi)) \<noteq> [] \<and>
   fetches (snd (sendMessage_begin (ui typed_hi))) =
           [\<lparr>url = ascii ''http://127.0.0.1:8000/chat'', method' = ascii ''POST'',
             headers = [(ascii ''Content-Type'', ascii ''application/json'')],
             body = JSON_stringify (JObj [(ascii ''message'', JStr (ascii ''hi''))])\<rparr>] \<and>
   fetches (snd (sendMessage_resume (FetchRejected TypeError))) = []"
  using one_post_per_send [OF typed_hi_guard, of "FetchRejected TypeError"] typed_hi_guard
  by (simp add: typed_hi_def)

subsection \<open>Faults and the fallback record\<close>

text \<open>
  C8: for every input and every outcome of the request, sendMessage completes without
  throwing and a failure is turned into the fallback bot record. The first half holds
  (\<open>sendMessage_returns\<close>), and so does the second for a rejected fetch, a status that is
  not a success and a body that cannot be parsed (\<open>failure_converted\<close>). The code does
  not do this when a success response carries the JSON body \<^verbatim>\<open>null\<close>: the resumed call
  returns, its effects are the reply updater and the reset of the busy flag, with no
  fallback record among them, and the updater then throws a TypeError when React runs it,
  which nothing catches.
\<close>

theorem null_body_fault_escapes:
  "sendMessage_resume (FetchResolved \<lparr>ok = True, json = JsonResolved JNull\<rparr>) =
     (Returned, [SetMessages (reply_updater JNull), SetLoading False]) \<and>
   reply_updater JNull (messages (ui sent_hi)) = Inl TypeError \<and>
   perform (snd (sendMessage_resume (FetchResolved \<lparr>ok = True, json = JsonResolved JNull\<rparr>)))
     (sent_hi\<lparr>inflight := inflight sent_hi - 1\<rparr>) = Inl TypeError"
  by (simp add: resume_parsed reply_updater_def)

subsection \<open>The greeting\<close>



subsection \<open>Success responses with an unusable body\<close>

text \<open>
  C10: a success body that cannot be parsed gives the fallback record, and a success
  body that parses but has no \<^verbatim>\<open>reply\<close> field gives a bot record whose text is
  \<^verbatim>\<open>undefined\<close>. The code does not do the second for the body \<^verbatim>\<open>null\<close>, which parses
  and has no \<^verbatim>\<open>reply\<close> field: reading \<^verbatim>\<open>data.reply\<close> throws, the component does not
  survive the transition, and no record is appended at all.
\<close>

theorem null_body_no_undefined_record:
  "get_prop JNull (ascii ''reply'') = Inl TypeError \<and>
   step (Settle (FetchResolved \<lparr>ok = True, json = JsonResolved JNull\<rparr>)) sent_hi = Inl TypeError \<and>
   appended sent_hi (step (Settle (FetchResolved \<lparr>ok = True, json = JsonResolved JNull\<rparr>)) sent_hi)
     \<noteq> Some [\<lparr>role = ascii ''bot'', text' = Undefined\<rparr>]"
  unfolding settle_sent_null by (simp add: appended_def)

text \<open>
  For every other body the handling is as described: with a request outstanding and a
  success status, a body that cannot be parsed as JSON appends the fallback bot record,
  and a body that parses to a value other than \<^verbatim>\<open>null\<close> and has no \<^verbatim>\<open>reply\<close> property
  appends a bot record whose text is \<^verbatim>\<open>undefined\<close>.
\<close>

theorem success_body_handling:
  assumes "0 < inflight w" and "ok res"
  shows "(json res = JsonRejected e \<longrightarrow>
            appended w (step (Settle (FetchResolved res)) w) =
              Some [\<lparr>role = ascii ''bot'', text' = Value (JStr fallback_text)\<rparr>]) \<and>
         (json res = JsonResolved data \<and> data \<noteq> JNull \<and>
            (\<forall>kvs. data = JObj kvs \<longrightarrow> map_of kvs (ascii ''reply'') = None) \<longrightarrow>
            appended w (step (Settle (FetchResolved res)) w) =
              Some [\<lparr>role = ascii ''bot'', text' = Undefined\<rparr>])"
proof (intro conjI impI)
  assume "json res = JsonRejected e"
  with assms(2) have "fst (try_block (FetchResolved res)) = Thrown e"
    by (simp add: try_block_cases)
  from settle_thrown [OF assms(1) this]
  show "appended w (step (Settle (FetchResolved res)) w) =
              Some [\<lparr>role = ascii ''bot'', text' = Value (JStr fallback_text)\<rparr>]"
    by (simp add: appended_append)
next
  assume a: "json res = JsonResolved data \<and> data \<noteq> JNull \<and>
            (\<forall>kvs. data = JObj kvs \<longrightarrow> map_of kvs (ascii ''reply'') = None)"
  then have "get_prop data (ascii ''reply'') = Inr Undefined"
    by (simp add: get_prop_absent)
  with settle_parsed [OF assms(1,2), of data] a
  show "appended w (step (Settle (FetchResolved res)) w) =
              Some [\<lparr>role = ascii ''bot'', text' = Undefined\<rparr>]"
    by (simp add: appended_append)
qed

theorem success_body_handling_witness:
  "appended sent_hi
     (step (Settle (FetchResolved \<lparr>ok = True, json = JsonRejected SyntaxError\<rparr>)) sent_hi) =
     Some [\<lparr>role = ascii ''bot'', text' = Value (JStr fallback_text)\<rparr>] \<and>
   appended sent_hi
     (step (Settle (FetchResolved
        \<lparr>ok = True, json = JsonResolved (JObj [(ascii ''answer'', JStr (ascii ''x''))])\<rparr>)) sent_hi) =
     Some [\<lparr>role = ascii ''bot'', text' = Undefined\<rparr>]"
  using success_body_handling [OF sent_hi_inflight,
      of "\<lparr>ok = True, json = JsonRejected SyntaxError\<rparr>" SyntaxError JNull]
    success_body_handling [OF sent_hi_inflight,
      of "\<lparr>ok = True, json = JsonResolved (JObj [(ascii ''answer'', JStr (ascii ''x''))])\<rparr>"
         SyntaxError "JObj [(ascii ''answer'', JStr (ascii ''x''))]"]
    answer_not_reply
  by simp

end
